theory Spec2Isabelle
  imports Complex_Main "HOL-Library.AList" "HOL-Library.Multiset"
begin

section \<open>Numbers\<close>

text \<open>
  The engine of \<^verbatim>\<open>tracknaliser/clustering.py\<close> (function \<^verbatim>\<open>cluster\<close>) and of
  \<^verbatim>\<open>tracknaliser/clustering_numpy.py\<close> (function \<^verbatim>\<open>cluster_numpy\<close>) works on a Python
  list of tuples of numbers. A coordinate is a Python \<^verbatim>\<open>int\<close>, which is unbounded and exact,
  or a Python \<^verbatim>\<open>float\<close>, an IEEE 754 double: a finite value, an infinity or NaN (the two
  zeros are one value here; they compare equal and nothing below divides by zero).
\<close>

datatype f64 = Fin real | PInf | NInf | NaN

datatype pynum = PyInt int | PyFloat f64

type_synonym point = "pynum list"

text \<open>The exceptions that the two modules can raise, with the message where one type is
  raised at several places.\<close>

datatype error =
    ValueError string
  | IndexError
  | KeyError string
  | ZeroDivisionError
  | TypeError
  | OverflowError

abbreviation config_error :: error where
  "config_error \<equiv>
     ValueError ''Number of clusters must be smaller than the number of given points.''"

text \<open>
  Floating-point arithmetic rounds. The rounding is not fixed here: every definition takes
  an \<open>arith\<close>, and every general theorem below holds for every \<open>arith\<close>.
  \<^item> \<open>fl_round x\<close> is the double that the exact result \<open>x\<close> of an addition, subtraction,
    multiplication, division, square root or conversion of an integer is rounded to: a
    finite value, or an infinity when \<open>x\<close> is too large;
  \<^item> \<open>libm_pow2 x\<close> is what the C library's \<^verbatim>\<open>pow(x, 2.0)\<close> returns, which Python's
    \<^verbatim>\<open>x**2\<close> calls for a float;
  \<^item> \<open>np_add_reduce xs\<close> is numpy's \<^verbatim>\<open>add.reduce\<close> of doubles, which adds them in an
    order of its own choice.
\<close>

record arith =
  fl_round :: "real \<Rightarrow> f64"
  libm_pow2 :: "real \<Rightarrow> f64"
  np_add_reduce :: "f64 list \<Rightarrow> f64"

subsection \<open>IEEE operations\<close>

text \<open>The operations on doubles, for a rounding \<open>r\<close> of the finite results. Infinities and
  NaN follow the standard: NaN goes through every operation, the difference of equal
  infinities is NaN, and every comparison with NaN is false.\<close>

fun f64_neg :: "f64 \<Rightarrow> f64" where
  "f64_neg (Fin x) = Fin (- x)"
| "f64_neg PInf = NInf"
| "f64_neg NInf = PInf"
| "f64_neg NaN = NaN"

fun f64_add :: "(real \<Rightarrow> f64) \<Rightarrow> f64 \<Rightarrow> f64 \<Rightarrow> f64" where
  "f64_add r (Fin x) (Fin y) = r (x + y)"
| "f64_add r NaN y = NaN"
| "f64_add r x NaN = NaN"
| "f64_add r PInf NInf = NaN"
| "f64_add r NInf PInf = NaN"
| "f64_add r PInf y = PInf"
| "f64_add r x PInf = PInf"
| "f64_add r NInf y = NInf"
| "f64_add r x NInf = NInf"

fun f64_sub :: "(real \<Rightarrow> f64) \<Rightarrow> f64 \<Rightarrow> f64 \<Rightarrow> f64" where
  "f64_sub r (Fin x) (Fin y) = r (x - y)"
| "f64_sub r x y = f64_add r x (f64_neg y)"

fun f64_square :: "(real \<Rightarrow> f64) \<Rightarrow> f64 \<Rightarrow> f64" where
  "f64_square r (Fin x) = r (x * x)"
| "f64_square r PInf = PInf"
| "f64_square r NInf = PInf"
| "f64_square r NaN = NaN"

fun f64_sqrt :: "(real \<Rightarrow> f64) \<Rightarrow> f64 \<Rightarrow> f64" where
  "f64_sqrt r (Fin x) = (if x < 0 then NaN else r (sqrt x))"
| "f64_sqrt r PInf = PInf"
| "f64_sqrt r NInf = NaN"
| "f64_sqrt r NaN = NaN"

text \<open>Division by a positive count.\<close>

fun f64_div :: "(real \<Rightarrow> f64) \<Rightarrow> f64 \<Rightarrow> nat \<Rightarrow> f64" where
  "f64_div r (Fin x) n = r (x / real n)"
| "f64_div r PInf n = PInf"
| "f64_div r NInf n = NInf"
| "f64_div r NaN n = NaN"

fun f64_less :: "f64 \<Rightarrow> f64 \<Rightarrow> bool" where
  "f64_less (Fin x) (Fin y) = (x < y)"
| "f64_less (Fin x) PInf = True"
| "f64_less NInf (Fin y) = True"
| "f64_less NInf PInf = True"
| "f64_less x y = False"

text \<open>\<open>x >= y\<close> on doubles.\<close>

fun f64_ge :: "f64 \<Rightarrow> f64 \<Rightarrow> bool" where
  "f64_ge NaN y = False"
| "f64_ge x NaN = False"
| "f64_ge x y = (\<not> f64_less x y)"

subsection \<open>Python's operators\<close>

text \<open>The conversion of a number to a float, which mixed arithmetic and \<^verbatim>\<open>math.sqrt\<close> apply
  to an \<^verbatim>\<open>int\<close>: an \<^verbatim>\<open>int\<close> beyond the range of the doubles raises OverflowError.\<close>

definition py_float :: "arith \<Rightarrow> pynum \<Rightarrow> error + f64" where
  "py_float ar a =
     (case a of
        PyFloat x \<Rightarrow> Inr x
      | PyInt k \<Rightarrow> (case fl_round ar (of_int k) of Fin x \<Rightarrow> Inr (Fin x) | _ \<Rightarrow> Inl OverflowError))"

text \<open>\<^verbatim>\<open>a - b\<close> and \<^verbatim>\<open>a + b\<close>: exact on two \<^verbatim>\<open>int\<close>s, and the operation on doubles after
  conversion otherwise; an infinite result of doubles raises nothing.\<close>

definition py_sub :: "arith \<Rightarrow> pynum \<Rightarrow> pynum \<Rightarrow> error + pynum" where
  "py_sub ar a b =
     (case (a, b) of
        (PyInt i, PyInt j) \<Rightarrow> Inr (PyInt (i - j))
      | _ \<Rightarrow>
          (case py_float ar a of
             Inl e \<Rightarrow> Inl e
           | Inr x \<Rightarrow>
               (case py_float ar b of
                  Inl e \<Rightarrow> Inl e
                | Inr y \<Rightarrow> Inr (PyFloat (f64_sub (fl_round ar) x y)))))"

definition py_add :: "arith \<Rightarrow> pynum \<Rightarrow> pynum \<Rightarrow> error + pynum" where
  "py_add ar a b =
     (case (a, b) of
        (PyInt i, PyInt j) \<Rightarrow> Inr (PyInt (i + j))
      | _ \<Rightarrow>
          (case py_float ar a of
             Inl e \<Rightarrow> Inl e
           | Inr x \<Rightarrow>
               (case py_float ar b of
                  Inl e \<Rightarrow> Inl e
                | Inr y \<Rightarrow> Inr (PyFloat (f64_add (fl_round ar) x y)))))"

text \<open>\<^verbatim>\<open>a**2\<close>: exact on an \<^verbatim>\<open>int\<close>; on a finite float the result of \<^verbatim>\<open>pow\<close>, and
  OverflowError when that is out of range.\<close>

definition py_pow2 :: "arith \<Rightarrow> pynum \<Rightarrow> error + pynum" where
  "py_pow2 ar a =
     (case a of
        PyInt i \<Rightarrow> Inr (PyInt (i * i))
      | PyFloat (Fin x) \<Rightarrow>
          (case libm_pow2 ar x of Fin y \<Rightarrow> Inr (PyFloat (Fin y)) | _ \<Rightarrow> Inl OverflowError)
      | PyFloat NaN \<Rightarrow> Inr (PyFloat NaN)
      | PyFloat _ \<Rightarrow> Inr (PyFloat PInf))"

text \<open>\<^verbatim>\<open>math.sqrt(a)\<close>: converts to a float; a negative argument raises ValueError.\<close>

definition py_sqrt :: "arith \<Rightarrow> pynum \<Rightarrow> error + f64" where
  "py_sqrt ar a =
     (case py_float ar a of
        Inl e \<Rightarrow> Inl e
      | Inr (Fin x) \<Rightarrow>
          if x < 0 then Inl (ValueError ''math domain error'')
          else Inr (fl_round ar (sqrt x))
      | Inr PInf \<Rightarrow> Inr PInf
      | Inr NInf \<Rightarrow> Inl (ValueError ''math domain error'')
      | Inr NaN \<Rightarrow> Inr NaN)"

text \<open>\<^verbatim>\<open>sum(xs)\<close> starts from the \<^verbatim>\<open>int\<close> 0 and adds from the left.\<close>

fun py_sum_from :: "arith \<Rightarrow> pynum \<Rightarrow> pynum list \<Rightarrow> error + pynum" where
  "py_sum_from ar acc [] = Inr acc"
| "py_sum_from ar acc (x # xs) =
     (case py_add ar acc x of
        Inl e \<Rightarrow> Inl e
      | Inr acc' \<Rightarrow> py_sum_from ar acc' xs)"

definition py_sum :: "arith \<Rightarrow> pynum list \<Rightarrow> error + pynum" where
  "py_sum ar xs = py_sum_from ar (PyInt 0) xs"

text \<open>\<^verbatim>\<open>a / n\<close> for a length \<open>n\<close>: true division. Of two \<^verbatim>\<open>int\<close>s it is the rounded quotient,
  OverflowError when that is out of range.\<close>

definition py_truediv :: "arith \<Rightarrow> pynum \<Rightarrow> nat \<Rightarrow> error + pynum" where
  "py_truediv ar a n =
     (if n = 0 then Inl ZeroDivisionError
      else
        (case a of
           PyInt i \<Rightarrow>
             (case fl_round ar (of_int i / real n) of
                Fin x \<Rightarrow> Inr (PyFloat (Fin x))
              | _ \<Rightarrow> Inl OverflowError)
         | PyFloat x \<Rightarrow> Inr (PyFloat (f64_div (fl_round ar) x n))))"

section \<open>Data model of the clustering engine\<close>

text \<open>The inner dictionary of one cluster, \<^verbatim>\<open>{'center': ..., 'allocated_points': ...}\<close>, is an
  association list from the key strings to the stored objects (\<open>pyval\<close> also has the
  integers, which \<^verbatim>\<open>print_points\<close> turns into text); the outer dictionary
  \<^verbatim>\<open>clusters_information\<close> is an association list in insertion order, which is the order in
  which \<^verbatim>\<open>.items()\<close> yields it.\<close>

datatype pyval = PyInteger int | PyTuple point | PyList "point list"

type_synonym entry = "(string \<times> pyval) list"

type_synonym info = "(nat \<times> entry) list"

text \<open>The objects that a call of \<^verbatim>\<open>cluster\<close> reads and writes: the caller's list
  \<^verbatim>\<open>points_list\<close>, the list \<^verbatim>\<open>centers\<close> and the dictionary \<^verbatim>\<open>clusters_information\<close> that the
  call creates, the loop counter, the number of values taken from the random generator, and
  the lines written to standard output.\<close>

record cstate =
  points_list :: "point list"
  centers :: "point list"
  clusters_information :: info
  iteration :: int
  draws :: nat
  printed :: "string list"

section \<open>The scalar implementation\<close>

subsection \<open>Distance and nearest centre\<close>

text \<open>The loop of \<^verbatim>\<open>calculate_distance(center_point, point, dimension)\<close>:
  \<^verbatim>\<open>square_distance += (point[i]-center_point[i])**2\<close> for \<^verbatim>\<open>i in range(dimension)\<close>. An
  index beyond the end of either tuple raises IndexError.\<close>

fun square_loop :: "arith \<Rightarrow> nat list \<Rightarrow> point \<Rightarrow> point \<Rightarrow> pynum \<Rightarrow> error + pynum" where
  "square_loop ar [] center_point point square_distance = Inr square_distance"
| "square_loop ar (i # ids) center_point point square_distance =
     (if i < length point \<and> i < length center_point then
        (case py_sub ar (point ! i) (center_point ! i) of
           Inl e \<Rightarrow> Inl e
         | Inr d \<Rightarrow>
             (case py_pow2 ar d of
                Inl e \<Rightarrow> Inl e
              | Inr q \<Rightarrow>
                  (case py_add ar square_distance q of
                     Inl e \<Rightarrow> Inl e
                   | Inr sq \<Rightarrow> square_loop ar ids center_point point sq)))
      else Inl IndexError)"

definition calculate_distance :: "arith \<Rightarrow> point \<Rightarrow> point \<Rightarrow> nat \<Rightarrow> error + f64" where
  "calculate_distance ar center_point point dimension =
     (case square_loop ar [0..<dimension] center_point point (PyInt 0) of
        Inl e \<Rightarrow> Inl e
      | Inr square_distance \<Rightarrow> py_sqrt ar square_distance)"

text \<open>The loop of \<^verbatim>\<open>find_best_cluster\<close> that fills \<^verbatim>\<open>distance[cluster_id]\<close> for the ids of
  \<^verbatim>\<open>range(clusters)\<close>, in order.\<close>

fun distance_loop :: "arith \<Rightarrow> nat list \<Rightarrow> point list \<Rightarrow> point \<Rightarrow> nat \<Rightarrow> error + f64 list" where
  "distance_loop ar [] cents point dimension = Inr []"
| "distance_loop ar (cluster_id # ids) cents point dimension =
     (if cluster_id < length cents then
        (case calculate_distance ar (cents ! cluster_id) point dimension of
           Inl e \<Rightarrow> Inl e
         | Inr d \<Rightarrow>
             (case distance_loop ar ids cents point dimension of
                Inl e \<Rightarrow> Inl e
              | Inr ds \<Rightarrow> Inr (d # ds)))
      else Inl IndexError)"

text \<open>Python's \<^verbatim>\<open>min\<close> of a list keeps the first item and replaces it by a later one that
  is less (ValueError on the empty list). \<^verbatim>\<open>list.index\<close> returns the first position whose
  item is the value or equal to it (ValueError when there is none): the value that \<^verbatim>\<open>min\<close>
  returns is an item of the list, and it is NaN only when it is the first item, so the
  equality of \<open>f64\<close> finds the position that Python finds.\<close>

fun py_min :: "f64 list \<Rightarrow> error + f64" where
  "py_min [] = Inl (ValueError ''min() arg is an empty sequence'')"
| "py_min (d # ds) = Inr (fold (\<lambda>x m. if f64_less x m then x else m) ds d)"

fun py_index :: "f64 list \<Rightarrow> f64 \<Rightarrow> nat \<Rightarrow> error + nat" where
  "py_index [] x i = Inl (ValueError ''x is not in list'')"
| "py_index (d # ds) x i = (if d = x then Inr i else py_index ds x (Suc i))"

definition find_best_cluster :: "arith \<Rightarrow> int \<Rightarrow> point \<Rightarrow> point list \<Rightarrow> nat \<Rightarrow> error + nat" where
  "find_best_cluster ar clusters point cents dimension =
     (case distance_loop ar [0..<nat clusters] cents point dimension of
        Inl e \<Rightarrow> Inl e
      | Inr distance \<Rightarrow>
          (case py_min distance of
             Inl e \<Rightarrow> Inl e
           | Inr m \<Rightarrow> py_index distance m 0))"

subsection \<open>Mean of a cluster, random choice\<close>

text \<open>The comprehension \<^verbatim>\<open>[point[i] for point in points]\<close>.\<close>

fun column :: "point list \<Rightarrow> nat \<Rightarrow> error + pynum list" where
  "column [] i = Inr []"
| "column (point # points) i =
     (if i < length point then
        (case column points i of
           Inl e \<Rightarrow> Inl e
         | Inr xs \<Rightarrow> Inr (point ! i # xs))
      else Inl IndexError)"

text \<open>\<^verbatim>\<open>mid_point(points, dimension)\<close>: for each \<^verbatim>\<open>i in range(dimension)\<close> the sum of the
  \<^verbatim>\<open>i\<close>-th coordinates divided by \<^verbatim>\<open>len(points)\<close>.\<close>

fun mid_loop :: "arith \<Rightarrow> nat list \<Rightarrow> point list \<Rightarrow> error + point" where
  "mid_loop ar [] points = Inr []"
| "mid_loop ar (i # ids) points =
     (case column points i of
        Inl e \<Rightarrow> Inl e
      | Inr xs \<Rightarrow>
          (case py_sum ar xs of
             Inl e \<Rightarrow> Inl e
           | Inr column_sum \<Rightarrow>
               (case py_truediv ar column_sum (length points) of
                  Inl e \<Rightarrow> Inl e
                | Inr m \<Rightarrow>
                    (case mid_loop ar ids points of
                       Inl e \<Rightarrow> Inl e
                     | Inr ms \<Rightarrow> Inr (m # ms)))))"

definition mid_point :: "arith \<Rightarrow> point list \<Rightarrow> nat \<Rightarrow> error + point" where
  "mid_point ar points dimension = mid_loop ar [0..<dimension] points"

text \<open>\<^verbatim>\<open>rand_point(points)\<close> is \<^verbatim>\<open>points[randrange(len(points))]\<close>. The value that
  \<^verbatim>\<open>randrange\<close> returns is the parameter \<open>r\<close>; the library promises \<open>r < len(points)\<close>,
  and raises ValueError on an empty range.\<close>

definition rand_point :: "point list \<Rightarrow> nat \<Rightarrow> error + point" where
  "rand_point points r =
     (if points = [] then Inl (ValueError ''empty range for randrange()'')
      else if r < length points then Inr (points ! r)
      else Inl IndexError)"

text \<open>The random generator is the list of the values it returns, call after call; a list
  that is used up goes on with zeros.\<close>

definition draw_at :: "nat list \<Rightarrow> nat \<Rightarrow> nat" where
  "draw_at rnd j = (if j < length rnd then rnd ! j else 0)"

subsection \<open>One pass: assignment, then update\<close>

text \<open>The comprehension
  \<^verbatim>\<open>[find_best_cluster(clusters, point, centers, dimension) for point in points_list]\<close>;
  the first exception ends it.\<close>

fun allocate :: "arith \<Rightarrow> int \<Rightarrow> point list \<Rightarrow> point list \<Rightarrow> nat \<Rightarrow> error + nat list" where
  "allocate ar clusters [] cents dimension = Inr []"
| "allocate ar clusters (point # points) cents dimension =
     (case find_best_cluster ar clusters point cents dimension of
        Inl e \<Rightarrow> Inl e
      | Inr c \<Rightarrow>
          (case allocate ar clusters points cents dimension of
             Inl e \<Rightarrow> Inl e
           | Inr cs \<Rightarrow> Inr (c # cs)))"

text \<open>The comprehension
  \<^verbatim>\<open>[point for point_index, point in enumerate(points_list) if allocated_cluster[point_index] == cluster_id]\<close>:
  the points whose entry of \<^verbatim>\<open>allocated_cluster\<close> is \<^verbatim>\<open>cluster_id\<close>, in the order of the input
  (\<^verbatim>\<open>allocated_cluster\<close> has one entry for each point).\<close>

definition allocated :: "point list \<Rightarrow> nat list \<Rightarrow> nat \<Rightarrow> point list" where
  "allocated points allocated_cluster cluster_id =
     map fst (filter (\<lambda>pc. snd pc = cluster_id) (zip points allocated_cluster))"

text \<open>Lines 52 to 55: an empty cluster keeps its centre (\<^verbatim>\<open>pass\<close>), any other gets the
  mean of its points.\<close>

definition update_center :: "arith \<Rightarrow> nat \<Rightarrow> point list \<Rightarrow> nat \<Rightarrow> cstate \<Rightarrow> error + cstate" where
  "update_center ar cluster_id allocated_points dimension s =
     (if length allocated_points = 0 then Inr s
      else
        (case mid_point ar allocated_points dimension of
           Inl e \<Rightarrow> Inl e
         | Inr c \<Rightarrow>
             if cluster_id < length (centers s)
             then Inr (s\<lparr>centers := (centers s)[cluster_id := c]\<rparr>)
             else Inl IndexError))"

text \<open>Lines 57 and 58: on the final iteration the centre and the points of the cluster are
  written into the dictionary.\<close>

definition write_information :: "nat \<Rightarrow> point list \<Rightarrow> int \<Rightarrow> cstate \<Rightarrow> error + cstate" where
  "write_information cluster_id allocated_points Max_iterations s =
     (if iteration s = Max_iterations - 1 then
        (if cluster_id < length (centers s)
         then Inr (s\<lparr>clusters_information :=
                 AList.update cluster_id
                   [(''center'', PyTuple (centers s ! cluster_id)),
                    (''allocated_points'', PyList allocated_points)]
                   (clusters_information s)\<rparr>)
         else Inl IndexError)
      else Inr s)"

text \<open>The loop \<^verbatim>\<open>for cluster_id in range(clusters)\<close>. An exception leaves the state as it is
  at that statement.\<close>

fun update_loop ::
  "arith \<Rightarrow> nat list \<Rightarrow> nat list \<Rightarrow> nat \<Rightarrow> int \<Rightarrow> cstate \<Rightarrow> error option \<times> cstate" where
  "update_loop ar [] allocated_cluster dimension Max_iterations s = (None, s)"
| "update_loop ar (cluster_id # ids) allocated_cluster dimension Max_iterations s =
     (let allocated_points = allocated (points_list s) allocated_cluster cluster_id in
      case update_center ar cluster_id allocated_points dimension s of
        Inl e \<Rightarrow> (Some e, s)
      | Inr s1 \<Rightarrow>
          (case write_information cluster_id allocated_points Max_iterations s1 of
             Inl e \<Rightarrow> (Some e, s1)
           | Inr s2 \<Rightarrow> update_loop ar ids allocated_cluster dimension Max_iterations s2))"

text \<open>The body of the \<^verbatim>\<open>while\<close> loop: lines 49 to 59.\<close>

definition one_pass :: "arith \<Rightarrow> int \<Rightarrow> nat \<Rightarrow> int \<Rightarrow> cstate \<Rightarrow> error option \<times> cstate" where
  "one_pass ar clusters dimension Max_iterations s =
     (case allocate ar clusters (points_list s) (centers s) dimension of
        Inl e \<Rightarrow> (Some e, s)
      | Inr allocated_cluster \<Rightarrow>
          (case update_loop ar [0..<nat clusters] allocated_cluster dimension Max_iterations s of
             (Some e, s1) \<Rightarrow> (Some e, s1)
           | (None, s1) \<Rightarrow> (None, s1\<lparr>iteration := iteration s1 + 1\<rparr>)))"

subsection \<open>The loop, the output, the call\<close>

lemma update_center_iteration:
  "update_center ar cluster_id ps dimension s = Inr s1 \<Longrightarrow> iteration s1 = iteration s"
  by (auto simp: update_center_def split: if_splits sum.splits)

lemma write_information_iteration:
  "write_information cluster_id ps M s = Inr s1 \<Longrightarrow> iteration s1 = iteration s"
  by (auto simp: write_information_def split: if_splits)

lemma update_loop_iteration:
  "update_loop ar ids a dimension M s = (r, s1) \<Longrightarrow> iteration s1 = iteration s"
proof (induction ids arbitrary: s)
  case Nil
  then show ?case by simp
next
  case (Cons cluster_id ids)
  then show ?case
    by (auto simp: Let_def split: sum.splits
        dest!: update_center_iteration write_information_iteration)
qed

lemma one_pass_iteration:
  "one_pass ar clusters dimension M s = (None, s1) \<Longrightarrow> iteration s1 = iteration s + 1"
  by (auto simp: one_pass_def split: sum.splits prod.splits option.splits
      dest: update_loop_iteration)

text \<open>\<^verbatim>\<open>while iteration < Max_iterations\<close>, with the body above.\<close>

function while_loop :: "arith \<Rightarrow> int \<Rightarrow> nat \<Rightarrow> int \<Rightarrow> cstate \<Rightarrow> error option \<times> cstate" where
  "while_loop ar clusters dimension Max_iterations s =
     (if iteration s < Max_iterations then
        (case one_pass ar clusters dimension Max_iterations s of
           (Some e, s1) \<Rightarrow> (Some e, s1)
         | (None, s1) \<Rightarrow> while_loop ar clusters dimension Max_iterations s1)
      else (None, s))"
  by pat_completeness auto
termination
  by (relation "measure (\<lambda>(ar, clusters, dimension, M, s). nat (M - iteration s))")
    (auto dest: one_pass_iteration [OF sym])

declare while_loop.simps [simp del]

text \<open>Lines 43 and 44: \<^verbatim>\<open>for _ in range(clusters): centers.append(rand_point(points_list))\<close>.\<close>

fun init_loop :: "nat \<Rightarrow> nat list \<Rightarrow> cstate \<Rightarrow> error option \<times> cstate" where
  "init_loop 0 rnd s = (None, s)"
| "init_loop (Suc n) rnd s =
     (case rand_point (points_list s) (draw_at rnd (draws s)) of
        Inl e \<Rightarrow> (Some e, s)
      | Inr p \<Rightarrow> init_loop n rnd (s\<lparr>centers := centers s @ [p], draws := draws s + 1\<rparr>))"

text \<open>\<^verbatim>\<open>len\<close> of a stored object.\<close>

fun py_len :: "pyval \<Rightarrow> error + nat" where
  "py_len (PyInteger k) = Inl TypeError"
| "py_len (PyTuple p) = Inr (length p)"
| "py_len (PyList ps) = Inr (length ps)"

text \<open>\<^verbatim>\<open>print_points(clusters_information)\<close>. Python's \<^verbatim>\<open>str\<close> is the parameter \<open>str\<close>;
  \<open>out\<close> are the lines printed so far. The function reads the key \<^verbatim>\<open>'centers'\<close>.\<close>

fun print_points :: "(pyval \<Rightarrow> string) \<Rightarrow> info \<Rightarrow> string list \<Rightarrow> error option \<times> string list" where
  "print_points str [] out = (None, out)"
| "print_points str ((cluster_key, dic) # items) out =
     (case map_of dic ''centers'' of
        None \<Rightarrow> (Some (KeyError ''centers''), out)
      | Some center \<Rightarrow>
          (case map_of dic ''allocated_points'' of
             None \<Rightarrow> (Some (KeyError ''allocated_points''), out)
           | Some allocated_points \<Rightarrow>
               (case py_len allocated_points of
                  Inl e \<Rightarrow> (Some e, out)
                | Inr n \<Rightarrow>
                    print_points str items
                      (out @ [''Cluster '' @ str (PyInteger (int cluster_key)) @ '' is centred at ''
                                @ str center @ '' and has '' @ str (PyInteger (int n)) @ '' points.'',
                              str allocated_points]))))"

text \<open>The state in which a call of \<^verbatim>\<open>cluster\<close> starts.\<close>

definition start_state :: "point list \<Rightarrow> cstate" where
  "start_state points =
     \<lparr>points_list = points, centers = [], clusters_information = [],
      iteration = 0, draws = 0, printed = []\<rparr>"

text \<open>\<^verbatim>\<open>cluster(points_list, Max_iterations, clusters, output_print)\<close>. The result is the
  exception or the returned object (\<open>None\<close> for Python's \<^verbatim>\<open>None\<close>, which the printing branch
  returns), together with the objects as the call leaves them. \<open>rnd\<close> are the values of
  \<^verbatim>\<open>randrange\<close>.\<close>

definition cluster ::
  "arith \<Rightarrow> nat list \<Rightarrow> (pyval \<Rightarrow> string) \<Rightarrow> point list \<Rightarrow> int \<Rightarrow> int \<Rightarrow> bool
     \<Rightarrow> (error + info option) \<times> cstate" where
  "cluster ar rnd str points Max_iterations clusters output_print =
     (let s0 = start_state points in
      if clusters > int (length points) then (Inl config_error, s0)
      else
        (case points of
           [] \<Rightarrow> (Inl IndexError, s0)
         | first_point # _ \<Rightarrow>
             (let dimension = length first_point in
              case init_loop (nat clusters) rnd s0 of
                (Some e, s1) \<Rightarrow> (Inl e, s1)
              | (None, s1) \<Rightarrow>
                  (case while_loop ar clusters dimension Max_iterations s1 of
                     (Some e, s2) \<Rightarrow> (Inl e, s2)
                   | (None, s2) \<Rightarrow>
                       if output_print then
                         (case print_points str (clusters_information s2) (printed s2) of
                            (Some e, out) \<Rightarrow> (Inl e, s2\<lparr>printed := out\<rparr>)
                          | (None, out) \<Rightarrow> (Inr None, s2\<lparr>printed := out\<rparr>))
                       else (Inr (Some (clusters_information s2)), s2)))))"

section \<open>The numpy implementation\<close>

subsection \<open>Arrays\<close>

text \<open>A two-dimensional array is its \<^verbatim>\<open>dtype\<close> with its rows: \<^verbatim>\<open>int64\<close> rows hold integers of
  64 bits, \<^verbatim>\<open>float64\<close> rows hold doubles. Arithmetic on \<^verbatim>\<open>int64\<close> wraps around.\<close>

datatype ndarray = Int64 "int list list" | Float64 "f64 list list"

fun rows_of :: "ndarray \<Rightarrow> nat" where
  "rows_of (Int64 rs) = length rs"
| "rows_of (Float64 rs) = length rs"

definition wrap64 :: "int \<Rightarrow> int" where
  "wrap64 z = (z + 2 ^ 63) mod 2 ^ 64 - 2 ^ 63"

definition fits_int64 :: "int \<Rightarrow> bool" where
  "fits_int64 z = (- (2 ^ 63) \<le> z \<and> z < 2 ^ 63)"

fun is_PyInt :: "pynum \<Rightarrow> bool" where
  "is_PyInt (PyInt k) = True"
| "is_PyInt (PyFloat x) = False"

fun int_of :: "pynum \<Rightarrow> int" where
  "int_of (PyInt k) = k"
| "int_of (PyFloat x) = 0"

fun small_enough :: "pynum \<Rightarrow> bool" where
  "small_enough (PyInt k) = fits_int64 k"
| "small_enough (PyFloat x) = True"

text \<open>The conversion of a list of numbers that are not all \<^verbatim>\<open>int\<close> to a row of doubles.\<close>

definition float_row :: "arith \<Rightarrow> point \<Rightarrow> f64 list" where
  "float_row ar p = map (\<lambda>a. case a of PyFloat x \<Rightarrow> x | PyInt k \<Rightarrow> fl_round ar (of_int k)) p"

text \<open>\<^verbatim>\<open>np.array(points_list)\<close>: a new array with the values of the list. Rows of different
  lengths raise ValueError (numpy 1.24 and later). The \<^verbatim>\<open>dtype\<close> is \<^verbatim>\<open>int64\<close> when every
  coordinate is a Python \<^verbatim>\<open>int\<close>, and \<^verbatim>\<open>float64\<close> otherwise (also when there is no
  coordinate at all). Every \<^verbatim>\<open>int\<close> is taken to fit in 64 bits (\<open>small_enough\<close>): for larger
  ones numpy chooses array types that are not modelled here, and the theorems that depend
  on the values of the array assume that there are none.\<close>

definition np_array :: "arith \<Rightarrow> point list \<Rightarrow> error + ndarray" where
  "np_array ar points =
     (if list_ex (\<lambda>p. length p \<noteq> length (hd points)) points
      then Inl (ValueError ''setting an array element with a sequence.'')
      else if concat points \<noteq> [] \<and> list_all is_PyInt (concat points)
      then Inr (Int64 (map (map int_of) points))
      else Inr (Float64 (map (float_row ar) points)))"

text \<open>\<^verbatim>\<open>astype(float)\<close> of a row of integers.\<close>

definition as_float :: "arith \<Rightarrow> int list \<Rightarrow> f64 list" where
  "as_float ar v = map (\<lambda>k. fl_round ar (of_int k)) v"

fun float_rows :: "arith \<Rightarrow> ndarray \<Rightarrow> f64 list list" where
  "float_rows ar (Int64 rs) = map (as_float ar) rs"
| "float_rows ar (Float64 rs) = rs"

text \<open>\<^verbatim>\<open>np.linalg.norm\<close> of one row of doubles is
  \<^verbatim>\<open>sqrt(add.reduce((x.conj() * x).real))\<close>.\<close>

definition row_norm :: "arith \<Rightarrow> f64 list \<Rightarrow> f64" where
  "row_norm ar v =
     f64_sqrt (fl_round ar) (np_add_reduce ar (map (f64_square (fl_round ar)) v))"

text \<open>\<^verbatim>\<open>np.argmin\<close> along one axis: a scan from the left that moves to a later position only
  on a value that is not greater than or equal to the least so far, and stops at the first
  NaN. \<open>mp\<close> is the least value so far, \<open>min_ind\<close> its position.\<close>

fun argmin_scan :: "f64 list \<Rightarrow> f64 \<Rightarrow> nat \<Rightarrow> nat \<Rightarrow> nat" where
  "argmin_scan [] mp min_ind i = min_ind"
| "argmin_scan (x # xs) mp min_ind i =
     (if mp = NaN then min_ind
      else if \<not> f64_ge x mp then argmin_scan xs x i (Suc i)
      else argmin_scan xs mp min_ind (Suc i))"

fun np_argmin :: "f64 list \<Rightarrow> nat" where
  "np_argmin [] = 0"
| "np_argmin (x # xs) = argmin_scan xs x 0 1"

text \<open>The norms of the differences of one row of \<^verbatim>\<open>points\<close> and the rows of \<^verbatim>\<open>mean_point\<close>.
  Two \<^verbatim>\<open>int64\<close> arrays are subtracted in \<^verbatim>\<open>int64\<close>, and \<^verbatim>\<open>norm\<close> converts the difference;
  otherwise the subtraction is one of doubles.\<close>

definition int_norms :: "arith \<Rightarrow> int list \<Rightarrow> int list list \<Rightarrow> f64 list" where
  "int_norms ar p cs =
     map (\<lambda>c. row_norm ar (as_float ar (map2 (\<lambda>a b. wrap64 (a - b)) p c))) cs"

definition float_norms :: "arith \<Rightarrow> f64 list \<Rightarrow> f64 list list \<Rightarrow> f64 list" where
  "float_norms ar p cs = map (\<lambda>c. row_norm ar (map2 (f64_sub (fl_round ar)) p c)) cs"

fun norms :: "arith \<Rightarrow> ndarray \<Rightarrow> ndarray \<Rightarrow> f64 list list" where
  "norms ar (Int64 ps) (Int64 cs) = map (\<lambda>p. int_norms ar p cs) ps"
| "norms ar points mean_point =
     map (\<lambda>p. float_norms ar p (float_rows ar mean_point)) (float_rows ar points)"

text \<open>\<^verbatim>\<open>Calculate_index(points, mean_point)\<close> is
  \<^verbatim>\<open>np.argmin(np.linalg.norm(points-mean_point[:,None],axis=2),axis=0)\<close>: for every row of
  \<^verbatim>\<open>points\<close> the position of the least norm. An empty \<^verbatim>\<open>mean_point\<close> makes \<^verbatim>\<open>argmin\<close> raise
  ValueError. The model covers rows of one length, as \<^verbatim>\<open>cluster_numpy\<close> passes them; with
  other shapes numpy either broadcasts or raises, the model raises.\<close>

definition Calculate_index :: "arith \<Rightarrow> ndarray \<Rightarrow> ndarray \<Rightarrow> error + nat list" where
  "Calculate_index ar points mean_point =
     (if list_ex (\<lambda>c. list_ex (\<lambda>p. length p \<noteq> length c) (float_rows ar points))
           (float_rows ar mean_point)
      then Inl (ValueError ''operands could not be broadcast together'')
      else if rows_of mean_point = 0
      then Inl (ValueError ''attempt to get argmin of an empty sequence'')
      else Inr (map np_argmin (norms ar points mean_point)))"

text \<open>\<^verbatim>\<open>points_list[np.argwhere(alloc == i)]\<close>, reshaped to rows: the rows of the array whose
  entry of \<^verbatim>\<open>alloc\<close> is \<open>i\<close> (\<^verbatim>\<open>alloc\<close> has one entry for each row).\<close>

definition select_rows :: "'a list \<Rightarrow> nat list \<Rightarrow> nat \<Rightarrow> 'a list" where
  "select_rows rs alloc i = map fst (filter (\<lambda>pa. snd pa = i) (zip rs alloc))"

fun alloc_rows :: "ndarray \<Rightarrow> nat list \<Rightarrow> nat \<Rightarrow> ndarray" where
  "alloc_rows (Int64 rs) alloc i = Int64 (select_rows rs alloc i)"
| "alloc_rows (Float64 rs) alloc i = Float64 (select_rows rs alloc i)"

text \<open>\<^verbatim>\<open>np.mean(alloc_ps, axis=0)\<close> for rows of \<open>dimension\<close> columns: the sum of each column,
  taken in doubles, divided by the number of rows; of no rows it is NaN in each column
  (numpy warns, and raises nothing).\<close>

definition np_mean :: "arith \<Rightarrow> ndarray \<Rightarrow> nat \<Rightarrow> f64 list" where
  "np_mean ar alloc_ps dimension =
     (if rows_of alloc_ps = 0 then replicate dimension NaN
      else map (\<lambda>j. f64_div (fl_round ar)
                      (np_add_reduce ar (map (\<lambda>row. row ! j) (float_rows ar alloc_ps)))
                      (rows_of alloc_ps))
             [0..<dimension])"

text \<open>A double that is stored into an \<^verbatim>\<open>int64\<close> array is converted the way C converts it:
  the fraction is cut off, and a value that has no \<^verbatim>\<open>int64\<close>, NaN among them, becomes the
  least one (on x86-64).\<close>

definition truncate :: "real \<Rightarrow> int" where
  "truncate x = (if 0 \<le> x then \<lfloor>x\<rfloor> else \<lceil>x\<rceil>)"

fun store_cast :: "f64 \<Rightarrow> int" where
  "store_cast (Fin x) = (if fits_int64 (truncate x) then truncate x else - (2 ^ 63))"
| "store_cast PInf = - (2 ^ 63)"
| "store_cast NInf = - (2 ^ 63)"
| "store_cast NaN = - (2 ^ 63)"

text \<open>\<^verbatim>\<open>centers[i] = new_mean\<close>.\<close>

fun store_row :: "ndarray \<Rightarrow> nat \<Rightarrow> f64 list \<Rightarrow> ndarray" where
  "store_row (Int64 cs) i new_mean = Int64 (cs[i := map store_cast new_mean])"
| "store_row (Float64 cs) i new_mean = Float64 (cs[i := new_mean])"

text \<open>The values of one row or of all rows as Python numbers (\<^verbatim>\<open>tolist\<close>, \<^verbatim>\<open>tuple\<close>).\<close>

fun row_values :: "ndarray \<Rightarrow> nat \<Rightarrow> point" where
  "row_values (Int64 cs) i = map PyInt (cs ! i)"
| "row_values (Float64 cs) i = map PyFloat (cs ! i)"

fun rows_values :: "ndarray \<Rightarrow> point list" where
  "rows_values (Int64 rs) = map (map PyInt) rs"
| "rows_values (Float64 rs) = map (map PyFloat) rs"

subsection \<open>The call\<close>

text \<open>The inner dictionary of \<^verbatim>\<open>cluster_numpy\<close> holds \<^verbatim>\<open>centers[i].tolist()\<close>, a list of
  numbers, and the rows of the cluster as tuples.\<close>

datatype npval = NpInteger int | NpCenter point | NpPoints "point list"

type_synonym np_entry = "(string \<times> npval) list"

type_synonym np_info = "(nat \<times> np_entry) list"

text \<open>The objects of a call of \<^verbatim>\<open>cluster_numpy\<close>: the caller's argument, the array that
  line 39 binds to the local name \<^verbatim>\<open>points_list\<close>, the array \<^verbatim>\<open>centers\<close> (of the same
  \<^verbatim>\<open>dtype\<close>, which fancy indexing copies), the dictionary, the counter, the output.\<close>

record np_state =
  np_argument :: "point list"
  np_points :: ndarray
  np_centers :: ndarray
  np_information :: np_info
  np_iteration :: int
  np_printed :: "string list"

text \<open>Lines 49 to 52: the mean of the rows of cluster \<open>i\<close> is stored into \<^verbatim>\<open>centers[i]\<close>,
  whatever the number of rows.\<close>

definition store_mean :: "arith \<Rightarrow> nat \<Rightarrow> ndarray \<Rightarrow> nat \<Rightarrow> np_state \<Rightarrow> error + np_state" where
  "store_mean ar i alloc_ps dimension s =
     (let new_mean = np_mean ar alloc_ps dimension in
      if i < rows_of (np_centers s)
      then Inr (s\<lparr>np_centers := store_row (np_centers s) i new_mean\<rparr>)
      else Inl IndexError)"

text \<open>Lines 54 to 57.\<close>

definition write_information_np :: "nat \<Rightarrow> ndarray \<Rightarrow> int \<Rightarrow> np_state \<Rightarrow> error + np_state" where
  "write_information_np i alloc_ps Max_iterations s =
     (if np_iteration s = Max_iterations - 1 then
        (if i < rows_of (np_centers s)
         then Inr (s\<lparr>np_information :=
                 AList.update i
                   [(''center'', NpCenter (row_values (np_centers s) i)),
                    (''allocated_points'', NpPoints (rows_values alloc_ps))]
                   (np_information s)\<rparr>)
         else Inl IndexError)
      else Inr s)"

fun update_loop_np ::
  "arith \<Rightarrow> nat list \<Rightarrow> nat list \<Rightarrow> nat \<Rightarrow> int \<Rightarrow> np_state \<Rightarrow> error option \<times> np_state" where
  "update_loop_np ar [] alloc dimension Max_iterations s = (None, s)"
| "update_loop_np ar (i # ids) alloc dimension Max_iterations s =
     (let alloc_ps = alloc_rows (np_points s) alloc i in
      case store_mean ar i alloc_ps dimension s of
        Inl e \<Rightarrow> (Some e, s)
      | Inr s1 \<Rightarrow>
          (case write_information_np i alloc_ps Max_iterations s1 of
             Inl e \<Rightarrow> (Some e, s1)
           | Inr s2 \<Rightarrow> update_loop_np ar ids alloc dimension Max_iterations s2))"

text \<open>The body of the \<^verbatim>\<open>while\<close> loop: lines 46 to 58.\<close>

definition one_pass_np :: "arith \<Rightarrow> int \<Rightarrow> nat \<Rightarrow> int \<Rightarrow> np_state \<Rightarrow> error option \<times> np_state" where
  "one_pass_np ar clusters dimension Max_iterations s =
     (case Calculate_index ar (np_points s) (np_centers s) of
        Inl e \<Rightarrow> (Some e, s)
      | Inr alloc \<Rightarrow>
          (case update_loop_np ar [0..<nat clusters] alloc dimension Max_iterations s of
             (Some e, s1) \<Rightarrow> (Some e, s1)
           | (None, s1) \<Rightarrow> (None, s1\<lparr>np_iteration := np_iteration s1 + 1\<rparr>)))"

lemma store_mean_iteration:
  "store_mean ar i ps dimension s = Inr s1 \<Longrightarrow> np_iteration s1 = np_iteration s"
  by (auto simp: store_mean_def Let_def split: if_splits)

lemma write_information_np_iteration:
  "write_information_np i ps M s = Inr s1 \<Longrightarrow> np_iteration s1 = np_iteration s"
  by (auto simp: write_information_np_def split: if_splits)

lemma update_loop_np_iteration:
  "update_loop_np ar ids a dimension M s = (r, s1) \<Longrightarrow> np_iteration s1 = np_iteration s"
proof (induction ids arbitrary: s)
  case Nil
  then show ?case by simp
next
  case (Cons i ids)
  then show ?case
    by (auto simp: Let_def split: sum.splits
        dest!: store_mean_iteration write_information_np_iteration)
qed

lemma one_pass_np_iteration:
  "one_pass_np ar clusters dimension M s = (None, s1) \<Longrightarrow> np_iteration s1 = np_iteration s + 1"
  by (auto simp: one_pass_np_def split: sum.splits prod.splits option.splits
      dest: update_loop_np_iteration)

function while_loop_np ::
  "arith \<Rightarrow> int \<Rightarrow> nat \<Rightarrow> int \<Rightarrow> np_state \<Rightarrow> error option \<times> np_state" where
  "while_loop_np ar clusters dimension Max_iterations s =
     (if np_iteration s < Max_iterations then
        (case one_pass_np ar clusters dimension Max_iterations s of
           (Some e, s1) \<Rightarrow> (Some e, s1)
         | (None, s1) \<Rightarrow> while_loop_np ar clusters dimension Max_iterations s1)
      else (None, s))"
  by pat_completeness auto
termination
  by (relation "measure (\<lambda>(ar, clusters, dimension, M, s). nat (M - np_iteration s))")
    (auto dest: one_pass_np_iteration [OF sym])

declare while_loop_np.simps [simp del]

text \<open>Line 41: \<^verbatim>\<open>points_list[np.random.choice(points_number,size=clusters,replace=False)]\<close>.
  \<open>choice\<close> is the index array that \<^verbatim>\<open>np.random.choice\<close> returns; a negative \<^verbatim>\<open>size\<close> makes it
  raise ValueError. Indexing with the array copies the rows, and raises IndexError on an
  index beyond the last row.\<close>

fun take_rows :: "ndarray \<Rightarrow> nat list \<Rightarrow> ndarray" where
  "take_rows (Int64 rs) choice = Int64 (map (\<lambda>i. rs ! i) choice)"
| "take_rows (Float64 rs) choice = Float64 (map (\<lambda>i. rs ! i) choice)"

definition fancy_index :: "int \<Rightarrow> nat list \<Rightarrow> ndarray \<Rightarrow> error + ndarray" where
  "fancy_index clusters choice points =
     (if clusters < 0 then Inl (ValueError ''negative dimensions are not allowed'')
      else if list_ex (\<lambda>i. \<not> i < rows_of points) choice then Inl IndexError
      else Inr (take_rows points choice))"

fun np_len :: "npval \<Rightarrow> error + nat" where
  "np_len (NpInteger k) = Inl TypeError"
| "np_len (NpCenter c) = Inr (length c)"
| "np_len (NpPoints ps) = Inr (length ps)"

text \<open>\<^verbatim>\<open>print_points\<close> of \<^verbatim>\<open>clustering_numpy.py\<close>; it copies the points into \<^verbatim>\<open>print_list\<close>
  before it prints them, and reads the key \<^verbatim>\<open>'centers'\<close> as its sibling does.\<close>

fun print_points_np ::
  "(npval \<Rightarrow> string) \<Rightarrow> np_info \<Rightarrow> string list \<Rightarrow> error option \<times> string list" where
  "print_points_np str [] out = (None, out)"
| "print_points_np str ((cluster_key, dic) # items) out =
     (case map_of dic ''centers'' of
        None \<Rightarrow> (Some (KeyError ''centers''), out)
      | Some center \<Rightarrow>
          (case map_of dic ''allocated_points'' of
             None \<Rightarrow> (Some (KeyError ''allocated_points''), out)
           | Some allocated_points \<Rightarrow>
               (case np_len allocated_points of
                  Inl e \<Rightarrow> (Some e, out)
                | Inr n \<Rightarrow>
                    print_points_np str items
                      (out @ [''Cluster '' @ str (NpInteger (int cluster_key)) @ '' is centred at ''
                                @ str center @ '' and has '' @ str (NpInteger (int n)) @ '' points.'',
                              str allocated_points]))))"

text \<open>The state in which a call of \<^verbatim>\<open>cluster_numpy\<close> starts; the two arrays do not exist
  yet.\<close>

definition start_state_np :: "point list \<Rightarrow> np_state" where
  "start_state_np points =
     \<lparr>np_argument = points, np_points = Float64 [], np_centers = Float64 [],
      np_information = [], np_iteration = 0, np_printed = []\<rparr>"

text \<open>\<^verbatim>\<open>cluster_numpy(points_list, Max_iterations, clusters, print_output)\<close>.\<close>

definition cluster_numpy ::
  "arith \<Rightarrow> nat list \<Rightarrow> (npval \<Rightarrow> string) \<Rightarrow> point list \<Rightarrow> int \<Rightarrow> int \<Rightarrow> bool
     \<Rightarrow> (error + np_info option) \<times> np_state" where
  "cluster_numpy ar choice str points Max_iterations clusters print_output =
     (let s0 = start_state_np points;
          points_number = length points in
      if clusters > int points_number then (Inl config_error, s0)
      else
        (case points of
           [] \<Rightarrow> (Inl IndexError, s0)
         | first_point # _ \<Rightarrow>
             (let dimension = length first_point in
              case np_array ar points of
                Inl e \<Rightarrow> (Inl e, s0)
              | Inr arr \<Rightarrow>
                  (let s1 = s0\<lparr>np_points := arr\<rparr> in
                   case fancy_index clusters choice arr of
                     Inl e \<Rightarrow> (Inl e, s1)
                   | Inr cs \<Rightarrow>
                       (case while_loop_np ar clusters dimension Max_iterations
                               (s1\<lparr>np_centers := cs\<rparr>) of
                          (Some e, s2) \<Rightarrow> (Inl e, s2)
                        | (None, s2) \<Rightarrow>
                            if print_output then
                              (case print_points_np str (np_information s2) (np_printed s2) of
                                 (Some e, out) \<Rightarrow> (Inl e, s2\<lparr>np_printed := out\<rparr>)
                               | (None, out) \<Rightarrow> (Inr None, s2\<lparr>np_printed := out\<rparr>))
                            else (Inr (Some (np_information s2)), s2))))))"

section \<open>What a pass leaves as it is\<close>

lemma init_loop_points: "init_loop n rnd s = (r, s1) \<Longrightarrow> points_list s1 = points_list s"
  by (induction n arbitrary: s) (auto split: sum.splits)

lemma update_center_points:
  "update_center ar cluster_id ps dimension s = Inr s1 \<Longrightarrow> points_list s1 = points_list s"
  by (auto simp: update_center_def split: if_splits sum.splits)

lemma write_information_points:
  "write_information cluster_id ps M s = Inr s1 \<Longrightarrow> points_list s1 = points_list s"
  by (auto simp: write_information_def split: if_splits)

lemma update_loop_points:
  "update_loop ar ids a dimension M s = (r, s1) \<Longrightarrow> points_list s1 = points_list s"
proof (induction ids arbitrary: s)
  case Nil
  then show ?case by simp
next
  case (Cons cluster_id ids)
  then show ?case
    by (auto simp: Let_def split: sum.splits
        dest!: update_center_points write_information_points)
qed

lemma one_pass_points:
  "one_pass ar clusters dimension M s = (r, s1) \<Longrightarrow> points_list s1 = points_list s"
  by (auto simp: one_pass_def split: sum.splits prod.splits option.splits
      dest: update_loop_points)

lemma while_loop_points:
  "while_loop ar clusters dimension M s = (r, s1) \<Longrightarrow> points_list s1 = points_list s"
proof (induction ar clusters dimension M s arbitrary: r s1 rule: while_loop.induct)
  case (1 ar clusters dimension M s)
  show ?case
  proof (cases "iteration s < M")
    case False
    with "1.prems" show ?thesis by (simp add: while_loop.simps)
  next
    case True
    obtain r2 s2 where p: "one_pass ar clusters dimension M s = (r2, s2)"
      by (cases "one_pass ar clusters dimension M s")
    have s2: "points_list s2 = points_list s" using p by (rule one_pass_points)
    show ?thesis
    proof (cases r2)
      case (Some e)
      with True p "1.prems" s2 show ?thesis by (simp add: while_loop.simps [of _ _ _ _ s])
    next
      case None
      with True p "1.prems" have "while_loop ar clusters dimension M s2 = (r, s1)"
        by (simp add: while_loop.simps [of _ _ _ _ s])
      with "1.IH" [OF True p [symmetric] None] s2 show ?thesis by simp
    qed
  qed
qed

lemma cluster_points:
  "points_list (snd (cluster ar rnd str points M clusters output_print)) = points"
proof -
  let ?s0 = "start_state points"
  obtain r1 s1 where i: "init_loop (nat clusters) rnd ?s0 = (r1, s1)"
    by (cases "init_loop (nat clusters) rnd ?s0")
  have p1: "points_list s1 = points" using init_loop_points [OF i] by (simp add: start_state_def)
  obtain r2 s2 where w: "while_loop ar clusters (length (hd points)) M s1 = (r2, s2)"
    by (cases "while_loop ar clusters (length (hd points)) M s1")
  have p2: "points_list s2 = points" using while_loop_points [OF w] p1 by simp
  have p0: "points_list ?s0 = points" by (simp add: start_state_def)
  show ?thesis
    using i w p0 p1 p2
    by (auto simp: cluster_def Let_def split: list.splits option.splits prod.splits)
qed

lemma store_mean_argument:
  "store_mean ar i ps dimension s = Inr s1 \<Longrightarrow> np_argument s1 = np_argument s"
  by (auto simp: store_mean_def Let_def split: if_splits)

lemma write_information_np_argument:
  "write_information_np i ps M s = Inr s1 \<Longrightarrow> np_argument s1 = np_argument s"
  by (auto simp: write_information_np_def split: if_splits)

lemma update_loop_np_argument:
  "update_loop_np ar ids a dimension M s = (r, s1) \<Longrightarrow> np_argument s1 = np_argument s"
proof (induction ids arbitrary: s)
  case Nil
  then show ?case by simp
next
  case (Cons i ids)
  then show ?case
    by (auto simp: Let_def split: sum.splits
        dest!: store_mean_argument write_information_np_argument)
qed

lemma one_pass_np_argument:
  "one_pass_np ar clusters dimension M s = (r, s1) \<Longrightarrow> np_argument s1 = np_argument s"
  by (auto simp: one_pass_np_def split: sum.splits prod.splits option.splits
      dest: update_loop_np_argument)

lemma while_loop_np_argument:
  "while_loop_np ar clusters dimension M s = (r, s1) \<Longrightarrow> np_argument s1 = np_argument s"
proof (induction ar clusters dimension M s arbitrary: r s1 rule: while_loop_np.induct)
  case (1 ar clusters dimension M s)
  show ?case
  proof (cases "np_iteration s < M")
    case False
    with "1.prems" show ?thesis by (simp add: while_loop_np.simps)
  next
    case True
    obtain r2 s2 where p: "one_pass_np ar clusters dimension M s = (r2, s2)"
      by (cases "one_pass_np ar clusters dimension M s")
    have s2: "np_argument s2 = np_argument s" using p by (rule one_pass_np_argument)
    show ?thesis
    proof (cases r2)
      case (Some e)
      with True p "1.prems" s2 show ?thesis by (simp add: while_loop_np.simps [of _ _ _ _ s])
    next
      case None
      with True p "1.prems" have "while_loop_np ar clusters dimension M s2 = (r, s1)"
        by (simp add: while_loop_np.simps [of _ _ _ _ s])
      with "1.IH" [OF True p [symmetric] None] s2 show ?thesis by simp
    qed
  qed
qed

lemma cluster_numpy_argument:
  "np_argument (snd (cluster_numpy ar choice str points M clusters print_output)) = points"
  unfolding cluster_numpy_def Let_def
  by (auto simp: start_state_np_def split: list.splits sum.splits option.splits prod.splits
      dest!: while_loop_np_argument)

section \<open>Claim C10: the caller's list is left as it was\<close>

text \<open>
  Claim C10. Whatever the arguments, and whether the call returns or raises, the caller's
  list of points is after a call of \<^verbatim>\<open>cluster\<close> and after a call of \<^verbatim>\<open>cluster_numpy\<close> the
  list it was before: the same length, the same tuples in the same order. The scalar code
  only reads \<^verbatim>\<open>points_list\<close>; its assignments go to \<^verbatim>\<open>centers\<close>, a new list, and to
  the new dictionary. The numpy code binds its local name to the copy that \<^verbatim>\<open>np.array\<close>
  makes, and stores only into \<^verbatim>\<open>centers\<close>, which indexing with an array copies again. In
  the model the argument is a component of the state that every statement hands on.
\<close>

theorem C10_points_list_unchanged:
  "points_list (snd (cluster ar rnd str points M clusters output_print)) = points
   \<and> length (points_list (snd (cluster ar rnd str points M clusters output_print))) = length points
   \<and> np_argument (snd (cluster_numpy ar choice str' points M clusters print_output)) = points
   \<and> length (np_argument (snd (cluster_numpy ar choice str' points M clusters print_output)))
       = length points"
  by (simp add: cluster_points cluster_numpy_argument)

section \<open>Two arithmetics\<close>

text \<open>The arithmetic without rounding and without overflow. It is the arithmetic of the
  doubles on every computation whose intermediate results are all doubles; the closed
  examples below are computed in it.\<close>

definition exact_arith :: arith where
  "exact_arith =
     \<lparr>fl_round = Fin,
      libm_pow2 = (\<lambda>x. Fin (x * x)),
      np_add_reduce = (\<lambda>xs. fold (\<lambda>x s. f64_add Fin s x) xs (Fin 0))\<rparr>"



section \<open>Valid inputs\<close>

text \<open>A point set is well formed when it is not empty and every point has the dimension
  of the first one. The values of \<^verbatim>\<open>randrange(len(points_list))\<close> lie below the number of
  points: \<open>draws_in_range rnd n k\<close> says so of the first \<open>k\<close> values. The index array of
  \<^verbatim>\<open>np.random.choice(n, size=k, replace=False)\<close> has \<open>k\<close> different entries below \<open>n\<close>.\<close>

definition well_formed :: "point list \<Rightarrow> bool" where
  "well_formed points =
     (points \<noteq> [] \<and> list_all (\<lambda>p. length p = length (hd points)) points)"

definition draws_in_range :: "nat list \<Rightarrow> nat \<Rightarrow> nat \<Rightarrow> bool" where
  "draws_in_range rnd n k = list_all (\<lambda>j. draw_at rnd j < n) [0..<k]"

definition choice_ok :: "nat list \<Rightarrow> nat \<Rightarrow> nat \<Rightarrow> bool" where
  "choice_ok choice n k = (length choice = k \<and> distinct choice \<and> list_all (\<lambda>i. i < n) choice)"

text \<open>The centres that the initial loop of \<^verbatim>\<open>cluster\<close> picks.\<close>

definition initial_centers :: "nat list \<Rightarrow> point list \<Rightarrow> nat \<Rightarrow> point list" where
  "initial_centers rnd points k = map (\<lambda>j. points ! draw_at rnd j) [0..<k]"

text \<open>In the closed examples below nothing is printed; \<open>no_text\<close> stands there for
  Python's \<^verbatim>\<open>str\<close>.\<close>

definition no_text :: "'a \<Rightarrow> string" where
  "no_text v = []"

lemma init_loop_run:
  "list_all (\<lambda>j. draw_at rnd (draws s + j) < length (points_list s)) [0..<k] \<Longrightarrow>
   init_loop k rnd s =
     (None, s\<lparr>centers := centers s @ map (\<lambda>j. points_list s ! draw_at rnd (draws s + j)) [0..<k],
              draws := draws s + k\<rparr>)"
proof (induction k arbitrary: s)
  case 0
  then show ?case by simp
next
  case (Suc k)
  have up: "[0..<Suc k] = 0 # map Suc [0..<k]"
    by (simp add: upt_conv_Cons map_Suc_upt del: upt_Suc)
  from Suc.prems have all: "\<forall>j<Suc k. draw_at rnd (draws s + j) < length (points_list s)"
    by (simp add: list_all_iff del: upt_Suc)
  from all have d0: "draw_at rnd (draws s) < length (points_list s)"
    by (metis add.right_neutral zero_less_Suc)
  from all have "\<forall>j<k. draw_at rnd (draws s + Suc j) < length (points_list s)"
    by (metis Suc_less_eq)
  then have rest: "list_all (\<lambda>j. draw_at rnd (draws s + Suc j) < length (points_list s)) [0..<k]"
    by (simp add: list_all_iff)
  from d0 have ne: "points_list s \<noteq> []" by auto
  let ?s1 = "s\<lparr>centers := centers s @ [points_list s ! draw_at rnd (draws s)],
               draws := draws s + 1\<rparr>"
  have "init_loop k rnd ?s1 =
     (None, ?s1\<lparr>centers := centers ?s1 @ map (\<lambda>j. points_list ?s1 ! draw_at rnd (draws ?s1 + j)) [0..<k],
              draws := draws ?s1 + k\<rparr>)"
    by (rule Suc.IH) (use rest in simp)
  then show ?case
    unfolding up using d0 ne
    by (simp add: rand_point_def comp_def del: upt_Suc)
qed

lemma init_loop_start:
  "draws_in_range rnd (length points) k \<Longrightarrow>
   init_loop k rnd (start_state points) =
     (None, (start_state points)\<lparr>centers := initial_centers rnd points k, draws := k\<rparr>)"
  using init_loop_run [of rnd "start_state points" k]
  by (simp add: draws_in_range_def start_state_def initial_centers_def)

section \<open>Claim C3: validation of the configuration\<close>

lemma cluster_config_error:
  "clusters > int (length points) \<Longrightarrow>
   cluster ar rnd str points M clusters output_print = (Inl config_error, start_state points)"
  by (simp add: cluster_def)

lemma cluster_numpy_config_error:
  "clusters > int (length points) \<Longrightarrow>
   cluster_numpy ar choice str points M clusters print_output
     = (Inl config_error, start_state_np points)"
  by (simp add: cluster_numpy_def)

lemma while_loop_no_pass:
  "M \<le> iteration s \<Longrightarrow> while_loop ar clusters dimension M s = (None, s)"
  by (simp add: while_loop.simps)

lemma while_loop_np_no_pass:
  "M \<le> np_iteration s \<Longrightarrow> while_loop_np ar clusters dimension M s = (None, s)"
  by (simp add: while_loop_np.simps)

lemma while_loop_raises:
  "iteration s < M \<Longrightarrow> one_pass ar clusters dimension M s = (Some e, s1) \<Longrightarrow>
   while_loop ar clusters dimension M s = (Some e, s1)"
  by (simp add: while_loop.simps [of _ _ _ _ s])

lemma while_loop_step:
  "iteration s < M \<Longrightarrow> one_pass ar clusters dimension M s = (None, s1) \<Longrightarrow>
   while_loop ar clusters dimension M s = while_loop ar clusters dimension M s1"
  by (simp add: while_loop.simps [of _ _ _ _ s])

lemma while_loop_np_raises:
  "np_iteration s < M \<Longrightarrow> one_pass_np ar clusters dimension M s = (Some e, s1) \<Longrightarrow>
   while_loop_np ar clusters dimension M s = (Some e, s1)"
  by (simp add: while_loop_np.simps [of _ _ _ _ s])

lemma while_loop_np_step:
  "np_iteration s < M \<Longrightarrow> one_pass_np ar clusters dimension M s = (None, s1) \<Longrightarrow>
   while_loop_np ar clusters dimension M s = while_loop_np ar clusters dimension M s1"
  by (simp add: while_loop_np.simps [of _ _ _ _ s])

lemma cluster_no_pass:
  assumes "M \<le> 0" and "clusters \<le> int (length points)" and "points \<noteq> []"
    and "draws_in_range rnd (length points) (nat clusters)"
  shows "cluster ar rnd str points M clusters False
     = (Inr (Some []),
        (start_state points)\<lparr>centers := initial_centers rnd points (nat clusters),
                             draws := nat clusters\<rparr>)"
proof -
  obtain p ps where pts: "points = p # ps" using assms(3) by (cases points) auto
  let ?s1 = "(start_state points)\<lparr>centers := initial_centers rnd points (nat clusters),
                                 draws := nat clusters\<rparr>"
  have i: "init_loop (nat clusters) rnd (start_state points) = (None, ?s1)"
    using assms(4) by (rule init_loop_start)
  have w: "while_loop ar clusters (length p) M ?s1 = (None, ?s1)"
    by (rule while_loop_no_pass) (use assms(1) in \<open>simp add: start_state_def\<close>)
  have c: "\<not> int (length points) < clusters" using assms(2) by simp
  have "clusters_information ?s1 = []" by (simp add: start_state_def)
  then show ?thesis
    unfolding cluster_def Let_def using c i w by (simp add: pts)
qed

text \<open>With no centre to compare with, the first pass of \<^verbatim>\<open>cluster\<close> fails in \<^verbatim>\<open>min\<close>.\<close>

lemma cluster_no_centre:
  assumes "clusters \<le> 0" and "1 \<le> M" and "points \<noteq> []"
  shows "cluster ar rnd str points M clusters output_print
     = (Inl (ValueError ''min() arg is an empty sequence''), start_state points)"
proof -
  obtain p ps where pts: "points = p # ps" using assms(3) by (cases points) auto
  have n: "nat clusters = 0" using assms(1) by simp
  have c: "\<not> int (length points) < clusters" using assms(1) by simp
  have "allocate ar clusters (p # ps) [] (length p)
      = Inl (ValueError ''min() arg is an empty sequence'')"
    by (simp add: find_best_cluster_def n)
  then have "one_pass ar clusters (length p) M (start_state points)
      = (Some (ValueError ''min() arg is an empty sequence''), start_state points)"
    by (simp add: one_pass_def start_state_def pts)
  then have "while_loop ar clusters (length p) M (start_state points)
      = (Some (ValueError ''min() arg is an empty sequence''), start_state points)"
    using assms(2) by (intro while_loop_raises) (simp_all add: start_state_def)
  then show ?thesis
    unfolding cluster_def Let_def using c by (simp add: pts n)
qed

lemma np_array_well_formed:
  assumes "well_formed points"
  shows "\<exists>arr. np_array ar points = Inr arr \<and> rows_of arr = length points"
proof -
  from assms have "\<not> list_ex (\<lambda>p. length p \<noteq> length (hd points)) points"
    unfolding well_formed_def list_all_iff list_ex_iff by blast
  then show ?thesis unfolding np_array_def by simp
qed

lemma np_array_ValueError:
  "np_array ar points = Inl e \<Longrightarrow> e = ValueError ''setting an array element with a sequence.''"
  by (auto simp: np_array_def split: if_splits)

lemma cluster_numpy_no_pass:
  assumes "M \<le> 0" and "0 \<le> clusters" and "clusters \<le> int (length points)"
    and "well_formed points" and "list_all (\<lambda>i. i < length points) choice"
  shows "\<exists>arr. np_array ar points = Inr arr
     \<and> cluster_numpy ar choice str points M clusters False
         = (Inr (Some []),
            (start_state_np points)\<lparr>np_points := arr, np_centers := take_rows arr choice\<rparr>)"
proof -
  obtain p ps where pts: "points = p # ps"
    using assms(4) by (cases points) (auto simp: well_formed_def)
  obtain arr where a: "np_array ar points = Inr arr" "rows_of arr = length points"
    using np_array_well_formed [OF assms(4)] by blast
  have f: "fancy_index clusters choice arr = Inr (take_rows arr choice)"
    using assms(2,5) a(2) by (auto simp: fancy_index_def list_all_iff list_ex_iff)
  let ?s1 = "(start_state_np points)\<lparr>np_points := arr, np_centers := take_rows arr choice\<rparr>"
  have w: "while_loop_np ar clusters (length p) M ?s1 = (None, ?s1)"
    by (rule while_loop_np_no_pass) (use assms(1) in \<open>simp add: start_state_np_def\<close>)
  have c: "\<not> int (length points) < clusters" using assms(3) by simp
  have i: "np_information ?s1 = []" by (simp add: start_state_np_def)
  have "cluster_numpy ar choice str points M clusters False = (Inr (Some []), ?s1)"
    unfolding cluster_numpy_def Let_def
    using c a(1) f w i by (simp add: pts)
  with a(1) show ?thesis by blast
qed

text \<open>A negative cluster count makes \<^verbatim>\<open>cluster_numpy\<close> raise ValueError at line 39 or at
  line 41, before there is any centre.\<close>

lemma cluster_numpy_negative:
  assumes "clusters < 0" and "points \<noteq> []"
  shows "\<exists>msg. fst (cluster_numpy ar choice str points M clusters print_output)
         = Inl (ValueError msg)
     \<and> np_centers (snd (cluster_numpy ar choice str points M clusters print_output))
         = Float64 []
     \<and> np_iteration (snd (cluster_numpy ar choice str points M clusters print_output)) = 0"
proof -
  obtain p ps where pts: "points = p # ps" using assms(2) by (cases points) auto
  have c: "\<not> int (length points) < clusters" using assms(1) by simp
  show ?thesis
  proof (cases "np_array ar points")
    case (Inl e)
    then have "e = ValueError ''setting an array element with a sequence.''"
      by (rule np_array_ValueError)
    with Inl c show ?thesis
      unfolding cluster_numpy_def Let_def by (simp add: pts start_state_np_def)
  next
    case (Inr arr)
    with c assms(1) show ?thesis
      unfolding cluster_numpy_def Let_def
      by (simp add: pts start_state_np_def fancy_index_def)
  qed
qed

text \<open>With a cluster count of zero the first pass of \<^verbatim>\<open>cluster_numpy\<close> fails in
  \<^verbatim>\<open>np.argmin\<close>.\<close>

lemma cluster_numpy_no_centre:
  assumes "clusters = 0" and "1 \<le> M" and "well_formed points"
  shows "fst (cluster_numpy ar [] str points M clusters print_output)
         = Inl (ValueError ''attempt to get argmin of an empty sequence'')
     \<and> np_iteration (snd (cluster_numpy ar [] str points M clusters print_output)) = 0"
proof -
  obtain p ps where pts: "points = p # ps"
    using assms(3) by (cases points) (auto simp: well_formed_def)
  obtain arr where a: "np_array ar points = Inr arr"
    using np_array_well_formed [OF assms(3)] by blast
  let ?s1 = "(start_state_np points)\<lparr>np_points := arr, np_centers := take_rows arr []\<rparr>"
  have e: "rows_of (take_rows arr []) = 0" "float_rows ar (take_rows arr []) = []"
    by (cases arr; simp)+
  have "Calculate_index ar arr (take_rows arr [])
      = Inl (ValueError ''attempt to get argmin of an empty sequence'')"
    by (simp add: Calculate_index_def e)
  then have "one_pass_np ar 0 (length p) M ?s1
      = (Some (ValueError ''attempt to get argmin of an empty sequence''), ?s1)"
    by (simp add: one_pass_np_def)
  then have w: "while_loop_np ar 0 (length p) M ?s1
      = (Some (ValueError ''attempt to get argmin of an empty sequence''), ?s1)"
    using assms(2) by (intro while_loop_np_raises) (simp_all add: start_state_np_def)
  have "cluster_numpy ar [] str points M clusters print_output
      = (Inl (ValueError ''attempt to get argmin of an empty sequence''), ?s1)"
    unfolding cluster_numpy_def Let_def
    using a w assms(1) by (simp add: pts fancy_index_def)
  then show ?thesis by (simp add: start_state_np_def)
qed

lemma cluster_empty_list:
  "clusters \<le> 0 \<Longrightarrow>
   cluster ar rnd str [] M clusters output_print = (Inl IndexError, start_state [])
   \<and> cluster_numpy ar choice str' [] M clusters print_output = (Inl IndexError, start_state_np [])"
  by (simp add: cluster_def cluster_numpy_def)

text \<open>
  Claim C3, as the code has it. The only check of the configuration is
  \<^verbatim>\<open>clusters > len(points_list)\<close>, the first statement of both functions.
  \<^item> Where the cluster count exceeds the number of points, both calls raise that ValueError,
    and the state is the one the call started in: no centre, no value drawn, no pass.
  \<^item> An iteration budget \<open>M \<le> 0\<close> is not rejected. With \<open>K \<le> N\<close> on a list that is not empty
    \<^verbatim>\<open>cluster\<close> picks its centres (none for \<open>K \<le> 0\<close>), runs no pass and returns the empty
    dictionary; so does \<^verbatim>\<open>cluster_numpy\<close> for \<open>0 \<le> K \<le> N\<close> on a well-formed list, with the
    rows of its index array as centres.
  \<^item> A cluster count \<open>K \<le> 0\<close> is not checked as such. For \<open>K < 0\<close> on a list that is not
    empty \<^verbatim>\<open>cluster_numpy\<close> raises a ValueError before it has any centre and before any pass.
    For \<open>K \<le> 0\<close> and \<open>M \<ge> 1\<close> on a list that is not empty \<^verbatim>\<open>cluster\<close> raises the ValueError
    of \<^verbatim>\<open>min\<close> in its first pass, in the state it started in. For \<open>K = 0\<close> and \<open>M \<ge> 1\<close> on a
    well-formed list \<^verbatim>\<open>cluster_numpy\<close> raises the ValueError of \<^verbatim>\<open>argmin\<close> in its first pass.
    On the empty list with \<open>K \<le> 0\<close> both raise IndexError.
\<close>

theorem C3_configuration_check:
  "(int (length points) < clusters \<longrightarrow>
      cluster ar rnd str points M clusters output_print = (Inl config_error, start_state points)
      \<and> cluster_numpy ar choice str' points M clusters print_output
          = (Inl config_error, start_state_np points))
   \<and> (M \<le> 0 \<and> clusters \<le> int (length points) \<and> points \<noteq> []
        \<and> draws_in_range rnd (length points) (nat clusters) \<longrightarrow>
      cluster ar rnd str points M clusters False
        = (Inr (Some []),
           (start_state points)\<lparr>centers := initial_centers rnd points (nat clusters),
                                draws := nat clusters\<rparr>))
   \<and> (M \<le> 0 \<and> 0 \<le> clusters \<and> clusters \<le> int (length points) \<and> well_formed points
        \<and> list_all (\<lambda>i. i < length points) choice \<longrightarrow>
      (\<exists>arr. np_array ar points = Inr arr
         \<and> cluster_numpy ar choice str' points M clusters False
             = (Inr (Some []),
                (start_state_np points)\<lparr>np_points := arr,
                                        np_centers := take_rows arr choice\<rparr>)))
   \<and> (clusters < 0 \<and> points \<noteq> [] \<longrightarrow>
      (\<exists>msg. fst (cluster_numpy ar choice str' points M clusters print_output)
                = Inl (ValueError msg)
         \<and> np_centers (snd (cluster_numpy ar choice str' points M clusters print_output))
             = Float64 []
         \<and> np_iteration (snd (cluster_numpy ar choice str' points M clusters print_output)) = 0))
   \<and> (clusters \<le> 0 \<and> 1 \<le> M \<and> points \<noteq> [] \<longrightarrow>
      cluster ar rnd str points M clusters output_print
        = (Inl (ValueError ''min() arg is an empty sequence''), start_state points))
   \<and> (clusters = 0 \<and> 1 \<le> M \<and> well_formed points \<longrightarrow>
      fst (cluster_numpy ar [] str' points M clusters print_output)
        = Inl (ValueError ''attempt to get argmin of an empty sequence'')
      \<and> np_iteration (snd (cluster_numpy ar [] str' points M clusters print_output)) = 0)
   \<and> (clusters \<le> 0 \<longrightarrow>
      cluster ar rnd str [] M clusters output_print = (Inl IndexError, start_state [])
      \<and> cluster_numpy ar choice str' [] M clusters print_output
          = (Inl IndexError, start_state_np []))"
proof (intro conjI impI)
  assume "int (length points) < clusters"
  then show "cluster ar rnd str points M clusters output_print
      = (Inl config_error, start_state points)"
    by (rule cluster_config_error)
next
  assume "int (length points) < clusters"
  then show "cluster_numpy ar choice str' points M clusters print_output
      = (Inl config_error, start_state_np points)"
    by (rule cluster_numpy_config_error)
next
  assume "M \<le> 0 \<and> clusters \<le> int (length points) \<and> points \<noteq> []
        \<and> draws_in_range rnd (length points) (nat clusters)"
  then show "cluster ar rnd str points M clusters False
        = (Inr (Some []),
           (start_state points)\<lparr>centers := initial_centers rnd points (nat clusters),
                                draws := nat clusters\<rparr>)"
    by (intro cluster_no_pass) simp_all
next
  assume "M \<le> 0 \<and> 0 \<le> clusters \<and> clusters \<le> int (length points) \<and> well_formed points
        \<and> list_all (\<lambda>i. i < length points) choice"
  then show "\<exists>arr. np_array ar points = Inr arr
         \<and> cluster_numpy ar choice str' points M clusters False
             = (Inr (Some []),
                (start_state_np points)\<lparr>np_points := arr,
                                        np_centers := take_rows arr choice\<rparr>)"
    by (intro cluster_numpy_no_pass) simp_all
next
  assume "clusters < 0 \<and> points \<noteq> []"
  then show "\<exists>msg. fst (cluster_numpy ar choice str' points M clusters print_output)
                = Inl (ValueError msg)
         \<and> np_centers (snd (cluster_numpy ar choice str' points M clusters print_output))
             = Float64 []
         \<and> np_iteration (snd (cluster_numpy ar choice str' points M clusters print_output)) = 0"
    by (intro cluster_numpy_negative) simp_all
next
  assume "clusters \<le> 0 \<and> 1 \<le> M \<and> points \<noteq> []"
  then show "cluster ar rnd str points M clusters output_print
        = (Inl (ValueError ''min() arg is an empty sequence''), start_state points)"
    by (intro cluster_no_centre) simp_all
next
  assume h: "clusters = 0 \<and> 1 \<le> M \<and> well_formed points"
  from h show "fst (cluster_numpy ar [] str' points M clusters print_output)
        = Inl (ValueError ''attempt to get argmin of an empty sequence'')"
    using cluster_numpy_no_centre [of clusters M points ar str' print_output] by simp
  from h show "np_iteration (snd (cluster_numpy ar [] str' points M clusters print_output)) = 0"
    using cluster_numpy_no_centre [of clusters M points ar str' print_output] by simp
next
  assume "clusters \<le> 0"
  then show "cluster ar rnd str [] M clusters output_print = (Inl IndexError, start_state [])"
    using cluster_empty_list by blast
next
  assume "clusters \<le> 0"
  then show "cluster_numpy ar choice str' [] M clusters print_output
          = (Inl IndexError, start_state_np [])"
    using cluster_empty_list by blast
qed

theorem C3_configuration_check_witness:
  "cluster exact_arith [] no_text [[PyFloat (Fin 0)]] 1 2 False
     = (Inl config_error, start_state [[PyFloat (Fin 0)]])
   \<and> cluster_numpy exact_arith [] no_text [[PyFloat (Fin 0)]] 1 2 False
       = (Inl config_error, start_state_np [[PyFloat (Fin 0)]])
   \<and> cluster exact_arith [0] no_text [[PyFloat (Fin 0)]] 0 1 False
       = (Inr (Some []),
          (start_state [[PyFloat (Fin 0)]])\<lparr>centers := [[PyFloat (Fin 0)]], draws := 1\<rparr>)
   \<and> (\<exists>arr. np_array exact_arith [[PyFloat (Fin 0)]] = Inr arr
         \<and> cluster_numpy exact_arith [0] no_text [[PyFloat (Fin 0)]] 0 1 False
             = (Inr (Some []),
                (start_state_np [[PyFloat (Fin 0)]])\<lparr>np_points := arr,
                                                      np_centers := take_rows arr [0]\<rparr>))
   \<and> (\<exists>msg. fst (cluster_numpy exact_arith [] no_text [[PyFloat (Fin 0)]] 1 (- 1) False)
                = Inl (ValueError msg))
   \<and> cluster exact_arith [] no_text [[PyFloat (Fin 0)]] 1 (- 1) False
       = (Inl (ValueError ''min() arg is an empty sequence''), start_state [[PyFloat (Fin 0)]])
   \<and> fst (cluster_numpy exact_arith [] no_text [[PyFloat (Fin 0)]] 1 0 False)
       = Inl (ValueError ''attempt to get argmin of an empty sequence'')
   \<and> cluster exact_arith [] no_text [] 1 0 False = (Inl IndexError, start_state [])"
  using C3_configuration_check [of "[[PyFloat (Fin 0)]]" 2 exact_arith "[]" no_text 1 False
      "[]" no_text False]
    C3_configuration_check [of "[[PyFloat (Fin 0)]]" 1 exact_arith "[0]" no_text 0 False
      "[0]" no_text False]
    C3_configuration_check [of "[[PyFloat (Fin 0)]]" "- 1" exact_arith "[]" no_text 1 False
      "[]" no_text False]
    C3_configuration_check [of "[[PyFloat (Fin 0)]]" 0 exact_arith "[]" no_text 1 False
      "[]" no_text False]
  by (simp add: well_formed_def draws_in_range_def draw_at_def initial_centers_def)

text \<open>The claim as written fails at \<open>M = 0\<close>: with one point and one cluster both functions
  return the empty dictionary, and raise nothing. It fails at \<open>K = 0\<close> and at \<open>K = -1\<close> too:
  with \<open>M = 0\<close> the call returns the empty dictionary (for \<open>K = -1\<close> the scalar one), and
  with \<open>K = 0\<close> and \<open>M = 1\<close> the scalar call raises in its first pass the error of \<^verbatim>\<open>min\<close>,
  which is not the error of the configuration.\<close>

theorem C3_counterexample:
  "fst (cluster exact_arith [0] no_text [[PyFloat (Fin 0)]] 0 1 False) = Inr (Some [])
   \<and> fst (cluster_numpy exact_arith [0] no_text [[PyFloat (Fin 0)]] 0 1 False) = Inr (Some [])
   \<and> fst (cluster exact_arith [] no_text [[PyFloat (Fin 0)]] 0 0 False) = Inr (Some [])
   \<and> fst (cluster_numpy exact_arith [] no_text [[PyFloat (Fin 0)]] 0 0 False) = Inr (Some [])
   \<and> fst (cluster exact_arith [] no_text [[PyFloat (Fin 0)]] 0 (- 1) False) = Inr (Some [])
   \<and> fst (cluster exact_arith [] no_text [[PyFloat (Fin 0)]] 1 0 False)
       = Inl (ValueError ''min() arg is an empty sequence'')"
proof (intro conjI)
  show "fst (cluster exact_arith [0] no_text [[PyFloat (Fin 0)]] 0 1 False) = Inr (Some [])"
    using cluster_no_pass [of 0 1 "[[PyFloat (Fin 0)]]" "[0]" exact_arith no_text]
    by (simp add: draws_in_range_def draw_at_def)
  show "fst (cluster_numpy exact_arith [0] no_text [[PyFloat (Fin 0)]] 0 1 False) = Inr (Some [])"
    using cluster_numpy_no_pass [of 0 1 "[[PyFloat (Fin 0)]]" "[0]" exact_arith no_text]
    by (auto simp: well_formed_def)
  show "fst (cluster exact_arith [] no_text [[PyFloat (Fin 0)]] 0 0 False) = Inr (Some [])"
    using cluster_no_pass [of 0 0 "[[PyFloat (Fin 0)]]" "[]" exact_arith no_text]
    by (simp add: draws_in_range_def)
  show "fst (cluster_numpy exact_arith [] no_text [[PyFloat (Fin 0)]] 0 0 False) = Inr (Some [])"
    using cluster_numpy_no_pass [of 0 0 "[[PyFloat (Fin 0)]]" "[]" exact_arith no_text]
    by (auto simp: well_formed_def)
  show "fst (cluster exact_arith [] no_text [[PyFloat (Fin 0)]] 0 (- 1) False) = Inr (Some [])"
    using cluster_no_pass [of 0 "- 1" "[[PyFloat (Fin 0)]]" "[]" exact_arith no_text]
    by (simp add: draws_in_range_def)
  show "fst (cluster exact_arith [] no_text [[PyFloat (Fin 0)]] 1 0 False)
       = Inl (ValueError ''min() arg is an empty sequence'')"
    using cluster_no_centre [of 0 1 "[[PyFloat (Fin 0)]]" exact_arith "[]" no_text False]
    by simp
qed

section \<open>Claim C5: the assignment step\<close>












subsection \<open>The scalar scan\<close>






subsection \<open>The scan of \<^verbatim>\<open>np.argmin\<close>\<close>






subsection \<open>The computed distance without rounding\<close>
















end
